theory Spec2Isabelle
  imports Complex_Main
begin

section \<open>Python values and builtins used by \<^verbatim>\<open>gunicorn_color.py\<close>\<close>

text \<open>
  A string is a sequence of characters with codes below 256. The exceptions that the code of \<^verbatim>\<open>Logger\<close> can raise are
  values; \<open>OtherError\<close> stands for any exception of a collaborator (a broken pipe or an
  encoding failure of the console), \<open>Unmodelled\<close> for an input outside the fragment of a
  library function that is written out below.
\<close>

datatype exn =
    KeyError string
  | IndexError
  | ValueError
  | MarkupError
  | OtherError string
  | Unmodelled

definition is_digit :: "char \<Rightarrow> bool" where
  "is_digit c = (48 \<le> (of_char c :: nat) \<and> (of_char c :: nat) \<le> 57)"

definition digit_val :: "char \<Rightarrow> nat" where
  "digit_val c = of_char c - 48"

text \<open>
  The white space that \<^verbatim>\<open>float\<close> strips from an ASCII string: space, tab, line feed,
  vertical tab, form feed and carriage return.
\<close>

definition is_space :: "char \<Rightarrow> bool" where
  "is_space c = (c = CHR '' '' \<or> (9 \<le> (of_char c :: nat) \<and> (of_char c :: nat) \<le> 13))"

definition is_ascii :: "char \<Rightarrow> bool" where
  "is_ascii c = ((of_char c :: nat) < 128)"

definition lower_char :: "char \<Rightarrow> char" where
  "lower_char c = (if 65 \<le> (of_char c :: nat) \<and> (of_char c :: nat) \<le> 90
                   then char_of (of_char c + (32 :: nat)) else c)"

definition lower :: "string \<Rightarrow> string" where
  "lower s = map lower_char s"

definition strip :: "string \<Rightarrow> string" where
  "strip s = rev (dropWhile is_space (rev (dropWhile is_space s)))"

text \<open>\<^verbatim>\<open>sep.join(xs)\<close>\<close>

fun join :: "string \<Rightarrow> string list \<Rightarrow> string" where
  "join sep [] = []"
| "join sep [x] = x"
| "join sep (x # y # ys) = x @ sep @ join sep (y # ys)"

subsection \<open>\<^verbatim>\<open>float(str)\<close>\<close>

text \<open>
  The code calls the builtin through the parameter \<open>builtin_float\<close> below, so the
  statements about the code hold for whatever the builtin does. \<open>py_float\<close> is the
  builtin on ASCII strings, for the examples: after stripping the white space (space,
  tab, line feed, vertical tab, form feed, carriage return) it accepts an optional sign
  followed by \<^verbatim>\<open>inf\<close>, \<^verbatim>\<open>infinity\<close>, \<^verbatim>\<open>nan\<close> (in any case) or a decimal number:
  digit parts (digits, single underscores between digits allowed) around an optional
  point, and an optional exponent. Any other ASCII string raises \<^verbatim>\<open>ValueError\<close>. A
  string with a character that is not ASCII is outside \<open>py_float\<close>.

  \<open>Finite q\<close> is the binary64 number nearest to the rational \<open>q\<close> that the literal
  denotes (ties to even); the rounding itself is not computed, only the comparison
  with \<open>1\<close> that the code makes, see \<open>gt_1\<close>.
\<close>

datatype pyfloat = Finite rat | PosInf | NegInf | NaN

fun digitpart :: "string \<Rightarrow> bool" where
  "digitpart [] = False"
| "digitpart [c] = is_digit c"
| "digitpart (c # d # cs) =
     (is_digit c \<and> (if d = CHR ''_'' then digitpart cs else digitpart (d # cs)))"

definition in_digitpart :: "char \<Rightarrow> bool" where
  "in_digitpart c = (is_digit c \<or> c = CHR ''_'')"

definition digits_value :: "string \<Rightarrow> nat" where
  "digits_value s = foldl (\<lambda>a c. 10 * a + digit_val c) 0 (filter is_digit s)"

text \<open>The exponent part after the number: empty, or \<^verbatim>\<open>e\<close>, an optional sign and a digit part.\<close>

definition exponent :: "string \<Rightarrow> int option" where
  "exponent s =
     (case s of
        [] \<Rightarrow> Some 0
      | c # r \<Rightarrow>
          if c = CHR ''e'' \<or> c = CHR ''E'' then
            (case r of
               [] \<Rightarrow> None
             | d # r' \<Rightarrow>
                 if d = CHR ''-'' then
                   (if digitpart r' then Some (- int (digits_value r')) else None)
                 else if d = CHR ''+'' then
                   (if digitpart r' then Some (int (digits_value r')) else None)
                 else (if digitpart r then Some (int (digits_value r)) else None))
          else None)"

definition scale10 :: "rat \<Rightarrow> int \<Rightarrow> rat" where
  "scale10 q e = (if 0 \<le> e then q * 10 ^ nat e else q / 10 ^ nat (- e))"

text \<open>An unsigned decimal number with its exponent, as the rational it denotes.\<close>

definition floatnumber :: "string \<Rightarrow> rat option" where
  "floatnumber s =
     (let ip = takeWhile in_digitpart s;
          r1 = dropWhile in_digitpart s
      in case r1 of
           [] \<Rightarrow> if digitpart ip then Some (of_nat (digits_value ip)) else None
         | c # r \<Rightarrow>
             if c = CHR ''.'' then
               (let fp = takeWhile in_digitpart r;
                    r2 = dropWhile in_digitpart r
                in if (ip = [] \<or> digitpart ip) \<and> (fp = [] \<or> digitpart fp)
                      \<and> \<not> (ip = [] \<and> fp = [])
                   then (case exponent r2 of
                           None \<Rightarrow> None
                         | Some e \<Rightarrow>
                             Some (scale10 (of_nat (digits_value (ip @ fp))
                                             / 10 ^ length (filter is_digit fp)) e))
                   else None)
             else if digitpart ip then
               (case exponent r1 of
                  None \<Rightarrow> None
                | Some e \<Rightarrow> Some (scale10 (of_nat (digits_value ip)) e))
             else None)"

definition py_float :: "string \<Rightarrow> exn + pyfloat" where
  "py_float s =
     (if \<not> list_all is_ascii s then Inl Unmodelled
      else
        (let t = strip s;
             neg = (case t of [] \<Rightarrow> False | c # _ \<Rightarrow> c = CHR ''-'');
             u = (case t of [] \<Rightarrow> [] | c # r \<Rightarrow> if c = CHR ''-'' \<or> c = CHR ''+'' then r else t)
         in if lower u = ''inf'' \<or> lower u = ''infinity''
            then Inr (if neg then NegInf else PosInf)
            else if lower u = ''nan'' then Inr NaN
            else (case floatnumber u of
                    None \<Rightarrow> Inl ValueError
                  | Some q \<Rightarrow> Inr (Finite (if neg then - q else q)))))"

text \<open>
  \<^verbatim>\<open>float(x) > 1\<close>. The binary64 numbers next to \<open>1\<close> are \<open>1\<close> and \<open>1 + 2^-52\<close>, and a
  tie goes to \<open>1\<close>, so the rounded number is above \<open>1\<close> exactly when the literal is above
  their midpoint. A comparison with \<^verbatim>\<open>nan\<close> is false.
\<close>

definition gt_1 :: "pyfloat \<Rightarrow> bool" where
  "gt_1 x = (case x of Finite q \<Rightarrow> 1 + 1 / 2 ^ 53 < q | PosInf \<Rightarrow> True
             | NegInf \<Rightarrow> False | NaN \<Rightarrow> False)"

text \<open>\<^verbatim>\<open>float(x) <= 1\<close>, the comparison the specification uses for the other case.\<close>

definition le_1 :: "pyfloat \<Rightarrow> bool" where
  "le_1 x = (case x of Finite q \<Rightarrow> q \<le> 1 + 1 / 2 ^ 53 | PosInf \<Rightarrow> False
             | NegInf \<Rightarrow> True | NaN \<Rightarrow> False)"

section \<open>The atoms of a request\<close>

text \<open>
  The atoms of a request are a \<^verbatim>\<open>dict\<close> from field names to strings, computed by the
  host (\<^verbatim>\<open>self.atoms(resp, req, environ, request_time)\<close>).
\<close>

type_synonym atoms = "string \<rightharpoonup> string"

text \<open>
  Modelled from the spec: the class \<^verbatim>\<open>SafeAtoms\<close> of the host's base logger, which
  \<^verbatim>\<open>self.atoms_wrapper_class\<close> names and which is not part of the sources. The
  specification calls it a safe accessor that substitutes \<^verbatim>\<open>-\<close> for a missing field,
  and the source "if atom doesn't exist replace it by '-'". In the host, its
  constructor copies the atoms with every double quote of a value escaped by a
  backslash, and its item lookup looks a key that starts with a brace up in lower
  case; no statement below depends on these two details.
\<close>

definition escape_quotes :: "string \<Rightarrow> string" where
  "escape_quotes v = concat (map (\<lambda>c. if c = CHR 0x22 then [CHR 0x5C, CHR 0x22] else [c]) v)"

definition SafeAtoms :: "atoms \<Rightarrow> atoms" where
  "SafeAtoms a = (\<lambda>k. map_option escape_quotes (a k))"

definition safe_getitem :: "atoms \<Rightarrow> string \<Rightarrow> string" where
  "safe_getitem d k =
     (case k of
        [] \<Rightarrow> (case d k of Some v \<Rightarrow> v | None \<Rightarrow> ''-'')
      | c # _ \<Rightarrow>
          if c = CHR ''{'' then (case d (lower k) of Some v \<Rightarrow> v | None \<Rightarrow> ''-'')
          else (case d k of Some v \<Rightarrow> v | None \<Rightarrow> ''-''))"

subsection \<open>Objects\<close>

text \<open>
  \<^verbatim>\<open>colorize_atoms\<close> assigns to items of the mapping it is given, so the mappings live
  in a store of objects and are passed by reference.
\<close>

type_synonym ref = nat

type_synonym heap = "ref \<Rightarrow> atoms"

section \<open>\<^verbatim>\<open>Logger.colorize_atoms\<close>\<close>

text \<open>
  The inner function \<^verbatim>\<open>wrap_with_color(key, color, attrs=None)\<close>; \<open>r\<close> is the mapping
  \<^verbatim>\<open>atoms\<close> of the enclosing call. An \<^verbatim>\<open>attrs\<close> that is \<^verbatim>\<open>None\<close> or empty is false.
  In \<open>colorize_atoms\<close>, \<open>fl\<close> is the builtin \<^verbatim>\<open>float\<close>.
\<close>

definition wrap_with_color :: "ref \<Rightarrow> string \<Rightarrow> string \<Rightarrow> string list option \<Rightarrow> heap \<Rightarrow> heap" where
  "wrap_with_color r key color attrs h =
     (let attr_string = (case attrs of
                           None \<Rightarrow> []
                         | Some as \<Rightarrow> if as = [] then [] else '' '' @ join '' '' as)
      in h(r := (h r)(key \<mapsto> ''['' @ color @ attr_string @ '']'' @ safe_getitem (h r) key @ ''[/]'')))"

definition colorize_atoms ::
    "(string \<Rightarrow> exn + pyfloat) \<Rightarrow> ref \<Rightarrow> heap \<Rightarrow> (exn + ref) \<times> heap" where
  "colorize_atoms fl r h =
     (let h1 = wrap_with_color r ''U'' ''cyan'' None h;
          h2 = wrap_with_color r ''q'' ''cyan'' None h1;
          h3 = wrap_with_color r ''m'' ''blue'' (Some [''bold'']) h2
      in case fl (safe_getitem (h3 r) ''L'') of
           Inl e \<Rightarrow> (Inl e, h3)
         | Inr x \<Rightarrow>
             if gt_1 x then (Inr r, wrap_with_color r ''L'' ''red bold'' None h3)
             else (Inr r, h3))"

section \<open>Formatting\<close>

text \<open>
  \<^verbatim>\<open>fmt % mapping\<close> for the conversions \<^verbatim>\<open>%(key)s\<close> and \<^verbatim>\<open>%%\<close>, read from left to
  right; \<open>g\<close> is the item lookup of the mapping.
\<close>

datatype fstate = Plain | Percent | InKey string | AfterKey string

fun percent_format :: "fstate \<Rightarrow> string \<Rightarrow> string \<Rightarrow> (string \<Rightarrow> string) \<Rightarrow> exn + string" where
  "percent_format Plain acc [] g = Inr acc"
| "percent_format Plain acc (c # cs) g =
     (if c = CHR ''%'' then percent_format Percent acc cs g
      else percent_format Plain (acc @ [c]) cs g)"
| "percent_format Percent acc [] g = Inl ValueError"
| "percent_format Percent acc (c # cs) g =
     (if c = CHR ''('' then percent_format (InKey []) acc cs g
      else if c = CHR ''%'' then percent_format Plain (acc @ [c]) cs g
      else Inl Unmodelled)"
| "percent_format (InKey k) acc [] g = Inl ValueError"
| "percent_format (InKey k) acc (c # cs) g =
     (if c = CHR '')'' then percent_format (AfterKey k) acc cs g
      else if c = CHR ''('' then Inl Unmodelled
      else percent_format (InKey (k @ [c])) acc cs g)"
| "percent_format (AfterKey k) acc [] g = Inl ValueError"
| "percent_format (AfterKey k) acc (c # cs) g =
     (if c = CHR ''s'' then percent_format Plain (acc @ g k) cs g
      else Inl Unmodelled)"

definition LOG_FORMAT :: string where
  \<open>LOG_FORMAT = ''%(m)s %(U)s?%(q)s (%(L)s s) "%(f)s"''\<close>

section \<open>The console\<close>

text \<open>
  A \<^verbatim>\<open>Text\<close> of the rendering library: its characters, its style definition and its
  styled spans (start, end, style definition).
\<close>

record rich_text =
  plain :: string
  style :: string
  spans :: "(nat \<times> nat \<times> string) list"

text \<open>The row that \<^verbatim>\<open>self.log_render\<close> is called for, as the arguments of the call.\<close>

record log_row =
  log_time :: nat
  time_format :: string
  level :: rich_text
  renderables :: "rich_text list"
  path :: "string option"
  line_no :: "nat option"
  link_path :: "string option"

text \<open>
  The collaborators of one call of \<^verbatim>\<open>access\<close>: the builtin \<^verbatim>\<open>float\<close>; the markup
  reader \<^verbatim>\<open>Text.from_markup\<close>, which fails on markup it rejects;
  \<^verbatim>\<open>self.console.print\<close>, which gives the exception it raises, if any;
  \<^verbatim>\<open>traceback.format_exc()\<close>, the text of the exception being handled; and
  \<^verbatim>\<open>datetime.datetime.now()\<close>.
\<close>

record env =
  builtin_float :: "string \<Rightarrow> exn + pyfloat"
  from_markup :: "string \<Rightarrow> exn + rich_text"
  console_print :: "log_row \<Rightarrow> exn option"
  format_exc :: "exn \<Rightarrow> string"
  now :: nat

text \<open>What a call does to the outside, in order.\<close>

datatype event =
    AtomsCall
  | ConsolePrint log_row
  | ErrorCall string

section \<open>\<^verbatim>\<open>Logger.access\<close>\<close>

record config =
  accesslog :: "string option"
  logconfig :: "string option"
  syslog :: bool

text \<open>The truth value of a setting that is \<^verbatim>\<open>None\<close> or a string.\<close>

definition truthy :: "string option \<Rightarrow> bool" where
  "truthy v = (case v of None \<Rightarrow> False | Some s \<Rightarrow> s \<noteq> [])"

text \<open>
  The state that calls share: the class attribute \<^verbatim>\<open>CODE_COLOR_MAPPING\<close>, the objects,
  and the events so far.
\<close>

record world =
  CODE_COLOR_MAPPING :: "string \<rightharpoonup> string"
  objects :: heap
  next_ref :: ref
  trace :: "event list"

definition CODE_COLOR_MAPPING_init :: "string \<rightharpoonup> string" where
  "CODE_COLOR_MAPPING_init =
     [''1'' \<mapsto> ''yellow'', ''2'' \<mapsto> ''green'', ''3'' \<mapsto> ''cyan'',
      ''4'' \<mapsto> ''magenta'', ''5'' \<mapsto> ''red'']"

text \<open>\<^verbatim>\<open>d.setdefault(k, v)\<close>: the value of \<open>k\<close>, stored as \<open>v\<close> first when \<open>k\<close> is absent.\<close>

definition setdefault :: "('k \<rightharpoonup> 'v) \<Rightarrow> 'k \<Rightarrow> 'v \<Rightarrow> 'v \<times> ('k \<rightharpoonup> 'v)" where
  "setdefault d k v = (case d k of Some x \<Rightarrow> (x, d) | None \<Rightarrow> (v, d(k \<mapsto> v)))"

definition log_render :: "rich_text list \<Rightarrow> nat \<Rightarrow> string \<Rightarrow> rich_text \<Rightarrow> string option \<Rightarrow> nat option
    \<Rightarrow> string option \<Rightarrow> log_row" where
  "log_render rs t tf lv pth lno lpth =
     \<lparr>log_time = t, time_format = tf, level = lv, renderables = rs,
      path = pth, line_no = lno, link_path = lpth\<rparr>"

text \<open>
  \<open>a\<close> is the mapping that \<^verbatim>\<open>self.atoms(resp, req, environ, request_time)\<close> returns;
  the call is the event \<open>AtomsCall\<close>.
\<close>

definition access :: "env \<Rightarrow> config \<Rightarrow> atoms \<Rightarrow> world \<Rightarrow> (exn + unit) \<times> world" where
  "access E cfg a w =
     (if \<not> (truthy (accesslog cfg) \<or> truthy (logconfig cfg) \<or> syslog cfg) then (Inr (), w)
      else
        (let w1 = w\<lparr>trace := trace w @ [AtomsCall]\<rparr>;
             safe_atoms = next_ref w1;
             w2 = w1\<lparr>objects := (objects w1)(safe_atoms := SafeAtoms a),
                     next_ref := Suc safe_atoms\<rparr>
         in (case colorize_atoms (builtin_float E) safe_atoms (objects w2) of
               (Inl e, h) \<Rightarrow> (Inl e, w2\<lparr>objects := h\<rparr>)
             | (Inr safe_atoms', h) \<Rightarrow>
                 (let w3 = w2\<lparr>objects := h\<rparr>
                  in (case percent_format Plain [] LOG_FORMAT (safe_getitem (h safe_atoms')) of
                        Inl e \<Rightarrow> (Inl e, w3)
                      | Inr markup \<Rightarrow>
                          (case from_markup E markup of
                             Inl e \<Rightarrow> (Inl e, w3)
                           | Inr message_renderable \<Rightarrow>
                               (case a ''s'' of
                                  None \<Rightarrow> (Inl (KeyError ''s''), w3)
                                | Some s \<Rightarrow>
                                    (case s of
                                       [] \<Rightarrow> (Inl IndexError, w3)
                                     | c # _ \<Rightarrow>
                                         (let status_color =
                                                fst (setdefault (CODE_COLOR_MAPPING w3) [c] []);
                                              w4 = w3\<lparr>CODE_COLOR_MAPPING :=
                                                      snd (setdefault (CODE_COLOR_MAPPING w3) [c] [])\<rparr>;
                                              status = \<lparr>plain = s, style = ''bold '' @ status_color,
                                                        spans = []\<rparr>;
                                              rendered = log_render [message_renderable] (now E)
                                                           ''[%X]'' status None None None;
                                              w5 = w4\<lparr>trace := trace w4 @ [ConsolePrint rendered]\<rparr>
                                          in (case console_print E rendered of
                                                None \<Rightarrow> (Inr (), w5)
                                              | Some e \<Rightarrow>
                                                  (Inr (), w5\<lparr>trace := trace w5
                                                     @ [ErrorCall (format_exc E e)]\<rparr>)))))))))))"

text \<open>
  The worlds that calls of \<^verbatim>\<open>access\<close> lead to, from one in which the class attribute
  has the value the class body gives it.
\<close>

inductive reachable :: "world \<Rightarrow> bool" where
  initial: "CODE_COLOR_MAPPING w = CODE_COLOR_MAPPING_init \<Longrightarrow> reachable w"
| step: "reachable w \<Longrightarrow> reachable (snd (access E cfg a w))"

text \<open>
  The Status-Class Color Map as the specification words it: the colour of the first
  character of a status code, and no colour for any other character.
\<close>

definition status_class_color :: "char \<Rightarrow> string" where
  "status_class_color c =
     (if c = CHR ''1'' then ''yellow''
      else if c = CHR ''2'' then ''green''
      else if c = CHR ''3'' then ''cyan''
      else if c = CHR ''4'' then ''magenta''
      else if c = CHR ''5'' then ''red''
      else [])"

section \<open>\<^verbatim>\<open>Logger._set_handler\<close>\<close>

text \<open>
  A handler of a logging channel: what it is, its formatter, and its attribute
  \<^verbatim>\<open>_gunicorn\<close> (false when the attribute is absent).
\<close>

datatype sink =
    RichHandler (rich_tracebacks: bool) (log_time_format: string) (show_path: bool)
  | HostHandler string

record handler =
  sink :: sink
  formatter :: "string option"
  gunicorn :: bool

datatype channel = error_log | access_log | other_log string

type_synonym logging = "channel \<Rightarrow> handler list"

text \<open>
  Modelled from the spec: \<^verbatim>\<open>self._get_gunicorn_handler(log)\<close> of the host's base
  logger, which is not part of the sources. It looks up a handler of the channel that
  carries the marker flag: the first one whose attribute \<^verbatim>\<open>_gunicorn\<close> is true, or
  \<^verbatim>\<open>None\<close>.
\<close>

definition get_gunicorn_handler :: "handler list \<Rightarrow> handler option" where
  "get_gunicorn_handler hs = find gunicorn hs"

text \<open>
  \<open>super\<close> is \<^verbatim>\<open>_set_handler\<close> of the base logger. The handler that is added is a new
  object, so \<^verbatim>\<open>log.addHandler\<close> appends it.
\<close>

definition set_handler ::
    "(channel \<Rightarrow> string \<Rightarrow> string \<Rightarrow> string option \<Rightarrow> logging \<Rightarrow> logging)
      \<Rightarrow> channel \<Rightarrow> string \<Rightarrow> string \<Rightarrow> string option \<Rightarrow> logging \<Rightarrow> logging" where
  "set_handler super lg output fmt stream L =
     (if lg = error_log \<or> lg = access_log then
        (let hs = (case get_gunicorn_handler (L lg) of
                     Some h \<Rightarrow> remove1 h (L lg)
                   | None \<Rightarrow> L lg);
             h = \<lparr>sink = RichHandler True ''[%X]'' (lg = error_log),
                  formatter = Some ''%(message)s'', gunicorn = True\<rparr>
         in L(lg := hs @ [h]))
      else super lg output fmt stream L)"

section \<open>Console markup\<close>

text \<open>
  Modelled from the spec: the markup reader \<^verbatim>\<open>Text.from_markup\<close> of the rendering
  library, which is not part of the sources and which the specification takes as the
  capability that parses styled markup into a message object. \<^verbatim>\<open>access\<close> has it as the
  parameter \<open>from_markup\<close>; the reader below is the one of the example request, for the
  tags that \<^verbatim>\<open>colorize_atoms\<close> writes. A tag is a bracketed text without an opening
  bracket inside that starts with a small letter, \<^verbatim>\<open>#\<close>, \<^verbatim>\<open>/\<close> or \<^verbatim>\<open>@\<close>;
  \<^verbatim>\<open>[style]\<close> opens a span and \<^verbatim>\<open>[/]\<close> closes the span opened last, which is an error
  when none is open; spans still open at the end run to the end. A span has the
  normalized style of its tag: the attributes first, then the colour, so the tag
  \<^verbatim>\<open>blue bold\<close> gives the style \<^verbatim>\<open>bold blue\<close>. Backslash escapes, emoji codes, tags
  with parameters, closing tags that name a style, control characters, and styles
  with other words than \<^verbatim>\<open>bold\<close> and the eight basic colour names are outside this
  fragment.
\<close>

definition tag_start :: "char \<Rightarrow> bool" where
  "tag_start c = ((97 \<le> (of_char c :: nat) \<and> (of_char c :: nat) \<le> 122)
                  \<or> c = CHR ''#'' \<or> c = CHR ''/'' \<or> c = CHR ''@'')"

definition in_fragment :: "char \<Rightarrow> bool" where
  "in_fragment c = (32 \<le> (of_char c :: nat) \<and> (of_char c :: nat) < 127
                    \<and> c \<noteq> CHR 0x5C \<and> c \<noteq> CHR '':'' \<and> c \<noteq> CHR ''='' \<and> c \<noteq> CHR ''@'')"

text \<open>The words of a style definition, which are separated by spaces.\<close>

fun split_words :: "string \<Rightarrow> string \<Rightarrow> string list" where
  "split_words w [] = (if w = [] then [] else [w])"
| "split_words w (c # cs) =
     (if c = CHR '' '' then (if w = [] then split_words [] cs else w # split_words [] cs)
      else split_words (w @ [c]) cs)"

definition color_names :: "string list" where
  "color_names = [''black'', ''red'', ''green'', ''yellow'', ''blue'', ''magenta'', ''cyan'',
                  ''white'']"

text \<open>
  \<^verbatim>\<open>Style.normalize\<close> on a definition of this fragment: \<^verbatim>\<open>bold\<close> when the definition
  has it, then the colour named last. \<open>None\<close> is a definition outside the fragment.
\<close>

definition normalize_style :: "string \<Rightarrow> string option" where
  "normalize_style d =
     (let ws = split_words [] d
      in if ws \<noteq> [] \<and> list_all (\<lambda>w. w = ''bold'' \<or> w \<in> set color_names) ws
         then Some (join '' '' ((if ''bold'' \<in> set ws then [''bold''] else [])
                                @ (case filter (\<lambda>w. w \<noteq> ''bold'') ws of
                                     [] \<Rightarrow> []
                                   | c # cs \<Rightarrow> [last (c # cs)])))
         else None)"

datatype mstate = InText | InTag string

definition finish_markup :: "string \<Rightarrow> (nat \<times> string) list \<Rightarrow> (nat \<times> nat \<times> string) list \<Rightarrow> rich_text" where
  "finish_markup acc stack sps =
     \<lparr>plain = acc, style = [],
      spans = sort_key fst (rev (sps @ map (\<lambda>(start, st). (start, length acc, st)) stack))\<rparr>"

fun markup_scan :: "mstate \<Rightarrow> string \<Rightarrow> string \<Rightarrow> (nat \<times> string) list \<Rightarrow> (nat \<times> nat \<times> string) list
    \<Rightarrow> exn + rich_text" where
  "markup_scan InText [] acc stack sps = Inr (finish_markup acc stack sps)"
| "markup_scan InText (c # cs) acc stack sps =
     (if c = CHR ''['' then markup_scan (InTag []) cs acc stack sps
      else markup_scan InText cs (acc @ [c]) stack sps)"
| "markup_scan (InTag b) [] acc stack sps = Inr (finish_markup (acc @ ''['' @ b) stack sps)"
| "markup_scan (InTag b) (c # cs) acc stack sps =
     (if c = CHR ''['' then markup_scan (InTag []) cs (acc @ ''['' @ b) stack sps
      else if c = CHR '']'' then
        (case b of
           [] \<Rightarrow> markup_scan InText cs (acc @ ''[]'') stack sps
         | d # name \<Rightarrow>
             if d = CHR ''/'' then
               (if strip name = [] then
                  (case stack of
                     [] \<Rightarrow> Inl MarkupError
                   | (start, st) # stack' \<Rightarrow>
                       markup_scan InText cs acc stack' (sps @ [(start, length acc, st)]))
                else Inl Unmodelled)
             else
               (case normalize_style b of
                  None \<Rightarrow> Inl Unmodelled
                | Some st \<Rightarrow> markup_scan InText cs acc ((length acc, st) # stack) sps))
      else if b = [] \<and> \<not> tag_start c then markup_scan InText cs (acc @ [CHR ''['', c]) stack sps
      else markup_scan (InTag (b @ [c])) cs acc stack sps)"

definition rich_markup :: "string \<Rightarrow> exn + rich_text" where
  "rich_markup s = (if list_all in_fragment s then markup_scan InText s [] [] [] else Inl Unmodelled)"

section \<open>The line of the specification\<close>

text \<open>
  The markup that the specification describes for a request: the method in blue and
  bold, the path and the query string in cyan, the latency in red and bold when it is
  above one second, in the template of the access line. The fields are read through
  the wrapper, so a missing one is \<^verbatim>\<open>-\<close>. \<open>x\<close> is the latency as a number.
\<close>

definition message_markup :: "atoms \<Rightarrow> pyfloat \<Rightarrow> string" where
  \<open>message_markup a x =
     (let g = safe_getitem (SafeAtoms a)
      in ''[blue bold]'' @ g ''m'' @ ''[/] [cyan]'' @ g ''U'' @ ''[/]?[cyan]'' @ g ''q'' @ ''[/] (''
         @ (if gt_1 x then ''[red bold]'' @ g ''L'' @ ''[/]'' else g ''L'')
         @ '' s) "'' @ g ''f'' @ ''"'')\<close>

section \<open>Example data\<close>

text \<open>The request of the specification's example, with access logging to the console.\<close>

definition example_atoms :: atoms where
  "example_atoms = [''m'' \<mapsto> ''GET'', ''U'' \<mapsto> ''/health'', ''q'' \<mapsto> [], ''L'' \<mapsto> ''0.003'',
                    ''s'' \<mapsto> ''200'', ''f'' \<mapsto> ''GET /health HTTP/1.1'']"

definition example_cfg :: config where
  "example_cfg = \<lparr>accesslog = Some ''-'', logconfig = None, syslog = False\<rparr>"

definition disabled_cfg :: config where
  "disabled_cfg = \<lparr>accesslog = None, logconfig = None, syslog = False\<rparr>"

definition example_env :: "(log_row \<Rightarrow> exn option) \<Rightarrow> env" where
  "example_env pr = \<lparr>builtin_float = py_float, from_markup = rich_markup, console_print = pr,
                      format_exc = (\<lambda>e. ''Traceback (most recent call last)''), now = 0\<rparr>"

definition initial_world :: world where
  "initial_world = \<lparr>CODE_COLOR_MAPPING = CODE_COLOR_MAPPING_init, objects = (\<lambda>_. Map.empty),
                     next_ref = 0, trace = []\<rparr>"

definition example_row :: log_row where
  \<open>example_row =
     \<lparr>log_time = 0, time_format = ''[%X]'',
      level = \<lparr>plain = ''200'', style = ''bold green'', spans = []\<rparr>,
      renderables = [\<lparr>plain = ''GET /health? (0.003 s) "GET /health HTTP/1.1"'', style = [],
                      spans = [(0, 3, ''bold blue''), (4, 11, ''cyan''), (12, 12, ''cyan'')]\<rparr>],
      path = None, line_no = None, link_path = None\<rparr>\<close>

text \<open>Handlers: one of the host without the flag, one of the host with it, and the one
  that \<open>set_handler\<close> adds to the access channel.\<close>

definition file_handler :: handler where
  "file_handler = \<lparr>sink = HostHandler ''FileHandler'', formatter = None, gunicorn = False\<rparr>"

definition syslog_handler :: handler where
  "syslog_handler = \<lparr>sink = HostHandler ''SysLogHandler'', formatter = None, gunicorn = True\<rparr>"

definition access_rich_handler :: handler where
  "access_rich_handler = \<lparr>sink = RichHandler True ''[%X]'' False,
                           formatter = Some ''%(message)s'', gunicorn = True\<rparr>"

text \<open>
  \<open>set_handler\<close> does not call the method of the base logger for the error and the
  access channel; in the examples below that method is one that leaves the handlers
  alone.
\<close>

definition base_set_handler :: "channel \<Rightarrow> string \<Rightarrow> string \<Rightarrow> string option \<Rightarrow> logging \<Rightarrow> logging" where
  "base_set_handler lg output fmt stream L = L"

section \<open>Evaluation\<close>

lemmas float_eval = py_float_def floatnumber_def exponent_def scale10_def digits_value_def
  digit_val_def is_digit_def in_digitpart_def strip_def is_space_def is_ascii_def lower_def
  lower_char_def gt_1_def le_1_def

lemmas markup_eval = rich_markup_def in_fragment_def tag_start_def finish_markup_def
  normalize_style_def color_names_def strip_def is_space_def

lemmas access_eval = access_def truthy_def colorize_atoms_def wrap_with_color_def
  safe_getitem_def SafeAtoms_def escape_quotes_def LOG_FORMAT_def markup_eval
  setdefault_def CODE_COLOR_MAPPING_init_def log_render_def Let_def

lemmas example_defs = example_env_def example_cfg_def example_atoms_def initial_world_def

lemma float_examples:
  "py_float ''0.003'' = Inr (Finite (3 / 1000))"
  "py_float ''2.5'' = Inr (Finite (5 / 2))"
  "py_float ''-'' = Inl ValueError"
  "py_float ''abc'' = Inl ValueError"
  by (simp_all add: float_eval Let_def)

text \<open>A control character before the number is not white space for \<^verbatim>\<open>float\<close>.\<close>

lemma float_control_character: "py_float (CHR 0x1F # ''2.5'') = Inl ValueError"
  by (simp add: float_eval Let_def)

lemma example_markup:
  "rich_markup (message_markup example_atoms (Finite (3 / 1000)))
     = Inr (hd (renderables example_row))"
  by (simp add: access_eval float_eval example_defs message_markup_def example_row_def)

section \<open>The format and the colorization step\<close>

lemma percent_format_LOG_FORMAT:
  "percent_format Plain [] LOG_FORMAT g =
     Inr (g ''m'' @ '' '' @ g ''U'' @ ''?'' @ g ''q'' @ '' ('' @ g ''L'' @ '' s) '' @ [CHR 0x22]
          @ g ''f'' @ [CHR 0x22])"
  by (simp add: LOG_FORMAT_def)

lemma le_1_not_gt_1: "le_1 x \<Longrightarrow> \<not> gt_1 x"
  by (cases x) (simp_all add: le_1_def gt_1_def)

text \<open>
  When the conversion of the latency raises, the call raises the same; the entries of
  \<^verbatim>\<open>U\<close>, \<^verbatim>\<open>q\<close> and \<^verbatim>\<open>m\<close> have been rewritten by then, and nothing else.
\<close>

lemma colorize_atoms_raises:
  assumes "fl (safe_getitem (h r) ''L'') = Inl e"
  shows "\<exists>h'. colorize_atoms fl r h = (Inl e, h')
     \<and> h' r ''U'' = Some (''[cyan]'' @ safe_getitem (h r) ''U'' @ ''[/]'')
     \<and> h' r ''q'' = Some (''[cyan]'' @ safe_getitem (h r) ''q'' @ ''[/]'')
     \<and> h' r ''m'' = Some (''[blue bold]'' @ safe_getitem (h r) ''m'' @ ''[/]'')
     \<and> (\<forall>k. k \<notin> {''U'', ''q'', ''m''} \<longrightarrow> h' r k = h r k)
     \<and> (\<forall>r'. r' \<noteq> r \<longrightarrow> h' r' = h r')"
  using assms
  by (simp add: colorize_atoms_def wrap_with_color_def safe_getitem_def Let_def)


lemma colorize_atoms_line:
  assumes "fl (safe_getitem (SafeAtoms a) ''L'') = Inr x"
  shows "\<exists>h'. colorize_atoms fl r (h(r := SafeAtoms a)) = (Inr r, h')
          \<and> percent_format Plain [] LOG_FORMAT (safe_getitem (h' r)) = Inr (message_markup a x)
          \<and> h' r ''L'' = (if gt_1 x
                           then Some (''[red bold]'' @ safe_getitem (SafeAtoms a) ''L'' @ ''[/]'')
                           else SafeAtoms a ''L'')"
  using assms
  by (simp add: colorize_atoms_def wrap_with_color_def safe_getitem_def Let_def
      percent_format_LOG_FORMAT message_markup_def)

text \<open>
  Claim C5. For every latency value that the builtin \<^verbatim>\<open>float\<close> parses,
  \<^verbatim>\<open>colorize_atoms\<close> returns, and the latency entry is wrapped in the red and bold style
  exactly when the float is greater than \<open>1\<close>; it is left as it was when the float is
  at most \<open>1\<close>.
\<close>

theorem colorize_atoms_latency:
  assumes "h r ''L'' = Some v" and "fl v = Inr x"
  shows "fst (colorize_atoms fl r h) = Inr r
       \<and> (gt_1 x \<longrightarrow> snd (colorize_atoms fl r h) r ''L'' = Some (''[red bold]'' @ v @ ''[/]''))
       \<and> (\<not> gt_1 x \<longrightarrow> snd (colorize_atoms fl r h) r ''L'' = Some v)
       \<and> (le_1 x \<longrightarrow> snd (colorize_atoms fl r h) r ''L'' = Some v)"
  using assms
  by (auto simp add: colorize_atoms_def wrap_with_color_def safe_getitem_def Let_def
      dest: le_1_not_gt_1)

theorem colorize_atoms_latency_witness:
  "py_float ''2.5'' = Inr (Finite (5 / 2)) \<and> gt_1 (Finite (5 / 2))
   \<and> snd (colorize_atoms py_float 0 ((\<lambda>_. Map.empty)(0 := [''L'' \<mapsto> ''2.5'']))) 0 ''L''
       = Some ''[red bold]2.5[/]''
   \<and> py_float ''0.003'' = Inr (Finite (3 / 1000)) \<and> le_1 (Finite (3 / 1000))
   \<and> snd (colorize_atoms py_float 0 ((\<lambda>_. Map.empty)(0 := [''L'' \<mapsto> ''0.003'']))) 0 ''L''
       = Some ''0.003''"
  using colorize_atoms_latency
          [of "(\<lambda>_. Map.empty)(0 := [''L'' \<mapsto> ''2.5''])" 0 "''2.5''" py_float "Finite (5 / 2)"]
        colorize_atoms_latency
          [of "(\<lambda>_. Map.empty)(0 := [''L'' \<mapsto> ''0.003''])" 0 "''0.003''" py_float
              "Finite (3 / 1000)"]
  by (simp add: float_examples gt_1_def le_1_def)

text \<open>
  Claim C10. A call of \<^verbatim>\<open>colorize_atoms\<close> that returns, which it does when the builtin
  \<^verbatim>\<open>float\<close> parses the latency, returns the reference it was given, and has assigned
  to the object behind it: the entries of \<^verbatim>\<open>U\<close>, \<^verbatim>\<open>q\<close> and \<^verbatim>\<open>m\<close> are wrapped in
  markup, the entry of \<^verbatim>\<open>L\<close> is wrapped only when its float is greater than \<open>1\<close>, every
  other entry of the mapping is as before, and so is every other object.
\<close>

theorem colorize_atoms_frame:
  assumes "fl (safe_getitem (h r) ''L'') = Inr x"
  shows "\<exists>h'. colorize_atoms fl r h = (Inr r, h')
     \<and> h' r ''U'' = Some (''[cyan]'' @ safe_getitem (h r) ''U'' @ ''[/]'')
     \<and> h' r ''q'' = Some (''[cyan]'' @ safe_getitem (h r) ''q'' @ ''[/]'')
     \<and> h' r ''m'' = Some (''[blue bold]'' @ safe_getitem (h r) ''m'' @ ''[/]'')
     \<and> h' r ''L'' = (if gt_1 x then Some (''[red bold]'' @ safe_getitem (h r) ''L'' @ ''[/]'')
                     else h r ''L'')
     \<and> (\<forall>k. k \<notin> {''U'', ''q'', ''m'', ''L''} \<longrightarrow> h' r k = h r k)
     \<and> (\<forall>r'. r' \<noteq> r \<longrightarrow> h' r' = h r')"
  using assms
  by (simp add: colorize_atoms_def wrap_with_color_def safe_getitem_def Let_def)

theorem colorize_atoms_frame_witness:
  "py_float (safe_getitem (((\<lambda>_. Map.empty)(0 := example_atoms, 1 := example_atoms)) 0) ''L'')
     = Inr (Finite (3 / 1000))
   \<and> fst (colorize_atoms py_float 0 ((\<lambda>_. Map.empty)(0 := example_atoms, 1 := example_atoms)))
       = Inr 0
   \<and> snd (colorize_atoms py_float 0 ((\<lambda>_. Map.empty)(0 := example_atoms, 1 := example_atoms)))
         0 ''U'' = Some ''[cyan]/health[/]''
   \<and> snd (colorize_atoms py_float 0 ((\<lambda>_. Map.empty)(0 := example_atoms, 1 := example_atoms)))
         0 ''L'' = Some ''0.003''
   \<and> snd (colorize_atoms py_float 0 ((\<lambda>_. Map.empty)(0 := example_atoms, 1 := example_atoms)))
         0 ''f'' = Some ''GET /health HTTP/1.1''
   \<and> snd (colorize_atoms py_float 0 ((\<lambda>_. Map.empty)(0 := example_atoms, 1 := example_atoms)))
         1 = example_atoms"
proof -
  let ?h = "(\<lambda>_. Map.empty)(0 := example_atoms, 1 := example_atoms)"
  have l: "safe_getitem example_atoms ''L'' = ''0.003''"
    by (simp add: safe_getitem_def example_atoms_def)
  have f: "py_float (safe_getitem (?h 0) ''L'') = Inr (Finite (3 / 1000))"
    by (simp add: l float_examples)
  have g: "\<not> gt_1 (Finite (3 / 1000))"
    by (simp add: gt_1_def)
  from colorize_atoms_frame [of py_float ?h 0 "Finite (3 / 1000)", OF f] f g show ?thesis
    by (elim exE conjE) (simp add: safe_getitem_def example_atoms_def)
qed

section \<open>The access line\<close>

text \<open>
  A call with logging enabled, a latency that the builtin parses, a line that the
  markup reader accepts and a status that is there and not empty: what it returns,
  what it does, and the latency entry of the wrapper it has made.
\<close>

lemma access_success:
  assumes "truthy (accesslog cfg) \<or> truthy (logconfig cfg) \<or> syslog cfg"
    and "builtin_float E (safe_getitem (SafeAtoms a) ''L'') = Inr x"
    and "from_markup E (message_markup a x) = Inr t"
    and "a ''s'' = Some (c # cs)"
    and "row = log_render [t] (now E) ''[%X]''
                 \<lparr>plain = c # cs,
                  style = ''bold '' @ fst (setdefault (CODE_COLOR_MAPPING w) [c] []),
                  spans = []\<rparr> None None None"
  shows "fst (access E cfg a w) = Inr ()
       \<and> trace (snd (access E cfg a w))
           = trace w @ AtomsCall # ConsolePrint row
             # (case console_print E row of None \<Rightarrow> [] | Some e \<Rightarrow> [ErrorCall (format_exc E e)])
       \<and> objects (snd (access E cfg a w)) (next_ref w) ''L''
           = (if gt_1 x then Some (''[red bold]'' @ safe_getitem (SafeAtoms a) ''L'' @ ''[/]'')
              else SafeAtoms a ''L'')"
proof -
  from colorize_atoms_line [of "builtin_float E" a x "next_ref w" "objects w", OF assms(2)]
    assms(1,3,4,5)
  show ?thesis
    by (elim exE conjE) (auto simp: access_def Let_def split: option.splits)
qed

lemma example_run:
  "fst (access (example_env pr) example_cfg example_atoms initial_world) = Inr ()
   \<and> trace (snd (access (example_env pr) example_cfg example_atoms initial_world))
       = AtomsCall # ConsolePrint example_row
         # (case pr example_row of None \<Rightarrow> []
            | Some e \<Rightarrow> [ErrorCall ''Traceback (most recent call last)''])"
proof -
  have en: "truthy (accesslog example_cfg) \<or> truthy (logconfig example_cfg) \<or> syslog example_cfg"
    by (simp add: example_cfg_def truthy_def)
  have f: "builtin_float (example_env pr) (safe_getitem (SafeAtoms example_atoms) ''L'')
            = Inr (Finite (3 / 1000))"
    by (simp add: example_env_def safe_getitem_def SafeAtoms_def escape_quotes_def
        example_atoms_def float_examples)
  have m: "from_markup (example_env pr) (message_markup example_atoms (Finite (3 / 1000)))
            = Inr (hd (renderables example_row))"
    by (simp add: example_env_def example_markup)
  have s: "example_atoms ''s'' = Some (CHR ''2'' # ''00'')"
    by (simp add: example_atoms_def)
  have r: "example_row = log_render [hd (renderables example_row)] (now (example_env pr)) ''[%X]''
                 \<lparr>plain = CHR ''2'' # ''00'',
                  style = ''bold '' @ fst (setdefault (CODE_COLOR_MAPPING initial_world) ''2'' []),
                  spans = []\<rparr> None None None"
    by (simp add: example_row_def log_render_def example_env_def initial_world_def
        setdefault_def CODE_COLOR_MAPPING_init_def)
  from access_success [OF en f m s r] show ?thesis
    by (simp add: initial_world_def example_env_def cong: option.case_cong)
qed

text \<open>
  Claim C7. When the access log destination, the logging configuration and the syslog
  switch are all unset, \<^verbatim>\<open>access\<close> returns without an error and leaves the world as it
  was: the atoms are not computed and nothing is printed.
\<close>

theorem access_disabled_noop:
  assumes "accesslog cfg = None" and "logconfig cfg = None" and "\<not> syslog cfg"
  shows "access E cfg a w = (Inr (), w)"
  using assms by (simp add: access_def truthy_def)

theorem access_disabled_noop_witness:
  "accesslog disabled_cfg = None \<and> logconfig disabled_cfg = None \<and> \<not> syslog disabled_cfg
   \<and> access (example_env (\<lambda>_. None)) disabled_cfg example_atoms initial_world
       = (Inr (), initial_world)"
  using access_disabled_noop [of disabled_cfg "example_env (\<lambda>_. None)" example_atoms initial_world]
  by (simp add: disabled_cfg_def)



subsection \<open>The status badge\<close>

lemma setdefault_twice:
  "fst (setdefault (snd (setdefault m k' [])) k []) = fst (setdefault m k ([]::string))"
  by (auto simp: setdefault_def split: option.splits)

lemma access_color_map:
  "CODE_COLOR_MAPPING (snd (access E cfg a w)) = CODE_COLOR_MAPPING w
   \<or> (\<exists>c. CODE_COLOR_MAPPING (snd (access E cfg a w))
            = snd (setdefault (CODE_COLOR_MAPPING w) [c] []))"
  by (auto simp: access_def Let_def
      split: if_splits prod.splits sum.splits option.splits list.splits)

lemma init_color:
  "(case CODE_COLOR_MAPPING_init [c] of Some col \<Rightarrow> col | None \<Rightarrow> []) = status_class_color c"
  by (simp add: CODE_COLOR_MAPPING_init_def status_class_color_def)

text \<open>
  Whatever calls came before, a lookup with \<^verbatim>\<open>setdefault\<close> gives what the map of the
  class body gives, and the empty string for a key that map does not have.
\<close>

lemma reachable_color:
  "reachable w \<Longrightarrow>
     fst (setdefault (CODE_COLOR_MAPPING w) k [])
       = (case CODE_COLOR_MAPPING_init k of Some col \<Rightarrow> col | None \<Rightarrow> [])"
proof (induction rule: reachable.induct)
  case (initial w)
  then show ?case by (simp add: setdefault_def split: option.splits)
next
  case (step w E cfg a)
  from access_color_map [of E cfg a w] show ?case
  proof
    assume "CODE_COLOR_MAPPING (snd (access E cfg a w)) = CODE_COLOR_MAPPING w"
    with step.IH show ?thesis by simp
  next
    assume "\<exists>c. CODE_COLOR_MAPPING (snd (access E cfg a w))
                  = snd (setdefault (CODE_COLOR_MAPPING w) [c] [])"
    then obtain c where "CODE_COLOR_MAPPING (snd (access E cfg a w))
                  = snd (setdefault (CODE_COLOR_MAPPING w) [c] [])" ..
    with step.IH show ?thesis by (simp add: setdefault_twice)
  qed
qed

text \<open>
  Claim C4. In every world that calls of \<^verbatim>\<open>access\<close> lead to, the badge of a row that a
  call prints is the status code of the request, in the style \<^verbatim>\<open>bold\<close> followed by the
  colour of the Status-Class Color Map for its first character: yellow, green, cyan,
  magenta, red for \<^verbatim>\<open>1\<close> to \<^verbatim>\<open>5\<close>, and no colour for any other character.
\<close>

theorem status_badge_style:
  assumes "reachable w"
    and "access E cfg a w = (res, w')"
    and "trace w' = trace w @ AtomsCall # ConsolePrint row # evs"
  shows "\<exists>c cs. a ''s'' = Some (c # cs)
          \<and> level row = \<lparr>plain = c # cs, style = ''bold '' @ status_class_color c, spans = []\<rparr>"
proof -
  have col: "\<And>c. fst (setdefault (CODE_COLOR_MAPPING w) [c] []) = status_class_color c"
    using reachable_color [OF assms(1)] by (simp add: init_color)
  from assms(2,3) show ?thesis
    by (auto simp: access_def Let_def col log_render_def
        split: if_splits prod.splits sum.splits option.splits list.splits)
qed

theorem status_badge_style_witness:
  "reachable initial_world \<and> example_atoms ''s'' = Some ''200''
   \<and> trace (snd (access (example_env (\<lambda>_. None)) example_cfg example_atoms initial_world))
       = trace initial_world @ AtomsCall # ConsolePrint example_row # []
   \<and> level example_row
       = \<lparr>plain = ''200'', style = ''bold '' @ status_class_color CHR ''2'', spans = []\<rparr>"
proof -
  let ?E = "example_env (\<lambda>_. None)"
  have r: "reachable initial_world"
    by (rule reachable.initial) (simp add: initial_world_def)
  have t: "trace (snd (access ?E example_cfg example_atoms initial_world))
            = trace initial_world @ AtomsCall # ConsolePrint example_row # []"
    using example_run [of "\<lambda>_. None"] by (simp add: initial_world_def)
  have c: "access ?E example_cfg example_atoms initial_world
            = (fst (access ?E example_cfg example_atoms initial_world),
               snd (access ?E example_cfg example_atoms initial_world))"
    by simp
  have s: "example_atoms ''s'' = Some ''200''"
    by (simp add: example_atoms_def)
  from status_badge_style [OF r c t] s r t show ?thesis
    by (elim exE conjE) simp
qed

text \<open>
  Claim C9. For the atoms of the specification's example, with logging enabled, in any
  world that calls of \<^verbatim>\<open>access\<close> lead to, at any time and whatever the print does, the
  call returns without an error and prints one row: the badge \<^verbatim>\<open>200\<close> in bold green, and
  the message \<^verbatim>\<open>GET /health? (0.003 s) "GET /health HTTP/1.1"\<close> whose method is a span of
  the style \<^verbatim>\<open>bold blue\<close> and whose path and (empty) query string are spans of the style
  \<^verbatim>\<open>cyan\<close>; no span covers the latency, whose entry \<^verbatim>\<open>colorize_atoms\<close> has left as it
  was. The builtin \<^verbatim>\<open>float\<close> and the markup reader are the ones written out above.
\<close>

theorem health_example:
  assumes "truthy (accesslog cfg) \<or> truthy (logconfig cfg) \<or> syslog cfg"
    and "reachable w"
    and "builtin_float E = py_float"
    and "from_markup E = rich_markup"
  shows
  \<open>let row = \<lparr>log_time = now E, time_format = ''[%X]'',
               level = \<lparr>plain = ''200'', style = ''bold green'', spans = []\<rparr>,
               renderables =
                 [\<lparr>plain = ''GET /health? (0.003 s) "GET /health HTTP/1.1"'', style = [],
                   spans = [(0, 3, ''bold blue''), (4, 11, ''cyan''), (12, 12, ''cyan'')]\<rparr>],
               path = None, line_no = None, link_path = None\<rparr>
   in fst (access E cfg example_atoms w) = Inr ()
      \<and> trace (snd (access E cfg example_atoms w))
          = trace w @ AtomsCall # ConsolePrint row
            # (case console_print E row of None \<Rightarrow> [] | Some e \<Rightarrow> [ErrorCall (format_exc E e)])
      \<and> objects (snd (access E cfg example_atoms w)) (next_ref w) ''L'' = Some ''0.003''\<close>
proof -
  have f: "builtin_float E (safe_getitem (SafeAtoms example_atoms) ''L'')
            = Inr (Finite (3 / 1000))"
    by (simp add: assms(3) safe_getitem_def SafeAtoms_def escape_quotes_def
        example_atoms_def float_examples)
  have m: "from_markup E (message_markup example_atoms (Finite (3 / 1000)))
            = Inr (hd (renderables example_row))"
    by (simp add: assms(4) example_markup)
  have s: "example_atoms ''s'' = Some (CHR ''2'' # ''00'')"
    by (simp add: example_atoms_def)
  have c: "fst (setdefault (CODE_COLOR_MAPPING w) ''2'' []) = ''green''"
    using reachable_color [OF assms(2), of "''2''"] by (simp add: CODE_COLOR_MAPPING_init_def)
  have g: "\<not> gt_1 (Finite (3 / 1000))"
    by (simp add: gt_1_def)
  have l: "SafeAtoms example_atoms ''L'' = Some ''0.003''"
    by (simp add: SafeAtoms_def escape_quotes_def example_atoms_def)
  from access_success [OF assms(1) f m s refl, of w] show ?thesis
    by (simp add: Let_def c g l log_render_def example_row_def)
qed

theorem health_example_witness:
  "(truthy (accesslog example_cfg) \<or> truthy (logconfig example_cfg) \<or> syslog example_cfg)
   \<and> reachable initial_world
   \<and> builtin_float (example_env (\<lambda>_. Some (OtherError ''BrokenPipeError''))) = py_float
   \<and> from_markup (example_env (\<lambda>_. Some (OtherError ''BrokenPipeError''))) = rich_markup
   \<and> fst (access (example_env (\<lambda>_. Some (OtherError ''BrokenPipeError''))) example_cfg
            example_atoms initial_world) = Inr ()
   \<and> trace (snd (access (example_env (\<lambda>_. Some (OtherError ''BrokenPipeError''))) example_cfg
            example_atoms initial_world))
       = [AtomsCall, ConsolePrint example_row, ErrorCall ''Traceback (most recent call last)'']
   \<and> objects (snd (access (example_env (\<lambda>_. Some (OtherError ''BrokenPipeError''))) example_cfg
            example_atoms initial_world)) 0 ''L'' = Some ''0.003''"
proof -
  let ?E = "example_env (\<lambda>_. Some (OtherError ''BrokenPipeError''))"
  have en: "truthy (accesslog example_cfg) \<or> truthy (logconfig example_cfg) \<or> syslog example_cfg"
    by (simp add: example_cfg_def truthy_def)
  have r: "reachable initial_world"
    by (rule reachable.initial) (simp add: initial_world_def)
  have fl: "builtin_float ?E = py_float" and mk: "from_markup ?E = rich_markup"
    by (simp_all add: example_env_def)
  from health_example [OF en r fl mk] en r fl mk show ?thesis
    by (simp add: Let_def example_row_def example_env_def initial_world_def)
qed

subsection \<open>What makes the call raise\<close>

text \<open>
  Claim C1 says that a field the renderer reads and the atoms lack is rendered as
  \<^verbatim>\<open>-\<close> and that the call does not raise, the latency and the status included. The
  code reads the status from the mapping of the host and not from the wrapper, so
  without \<^verbatim>\<open>s\<close> the call raises \<^verbatim>\<open>KeyError\<close>; and without \<^verbatim>\<open>L\<close> the wrapper gives
  \<^verbatim>\<open>-\<close>, which \<^verbatim>\<open>float\<close> rejects, so the call raises \<^verbatim>\<open>ValueError\<close>.
\<close>

theorem missing_status_or_latency_raises:
  "fst (access (example_env (\<lambda>_. None)) example_cfg (example_atoms(''s'' := None)) initial_world)
     = Inl (KeyError ''s'')
   \<and> fst (access (example_env (\<lambda>_. None)) example_cfg (example_atoms(''L'' := None)) initial_world)
     = Inl ValueError"
  by (simp add: access_eval float_eval example_defs)

text \<open>
  Claim C2 says that the call leaves the Status-Class Color Map as it was. The code
  looks the first character of the status up with \<^verbatim>\<open>setdefault\<close>, so for the status
  \<^verbatim>\<open>600\<close> the call adds the key \<^verbatim>\<open>6\<close> to the map of the class.
\<close>

theorem unmapped_status_extends_color_map:
  "CODE_COLOR_MAPPING initial_world ''6'' = None
   \<and> fst (access (example_env (\<lambda>_. None)) example_cfg (example_atoms(''s'' \<mapsto> ''600''))
            initial_world) = Inr ()
   \<and> CODE_COLOR_MAPPING
        (snd (access (example_env (\<lambda>_. None)) example_cfg (example_atoms(''s'' \<mapsto> ''600''))
                initial_world)) ''6'' = Some []"
  by (simp add: access_eval float_eval example_defs)

text \<open>A status whose first character the map has leaves the map alone.\<close>

lemma mapped_status_keeps_color_map:
  assumes "a ''s'' = Some (c # cs)" and "CODE_COLOR_MAPPING w [c] \<noteq> None"
  shows "CODE_COLOR_MAPPING (snd (access E cfg a w)) = CODE_COLOR_MAPPING w"
  using assms
  by (auto simp: access_def Let_def setdefault_def
      split: if_splits prod.splits sum.splits option.splits list.splits)




section \<open>The handlers of a channel\<close>

lemma find_flagged: "find gunicorn hs = Some h \<Longrightarrow> gunicorn h"
  by (induction hs) (auto split: if_splits)

lemma find_remove1_flagged:
  "find gunicorn hs = Some h \<Longrightarrow>
     Suc (length (filter gunicorn (remove1 h hs))) = length (filter gunicorn hs)
     \<and> filter (\<lambda>h. \<not> gunicorn h) (remove1 h hs) = filter (\<lambda>h. \<not> gunicorn h) hs"
  by (induction hs) (auto split: if_splits dest: find_flagged)

lemma find_None_flagged: "find gunicorn hs = None \<Longrightarrow> filter gunicorn hs = []"
  by (induction hs) (auto split: if_splits)

lemma set_handler_step:
  assumes "lg = error_log \<or> lg = access_log" and "length (filter gunicorn (L lg)) \<le> 1"
  shows "length (filter gunicorn (set_handler base lg out fmt st L lg)) = 1
       \<and> filter (\<lambda>h. \<not> gunicorn h) (set_handler base lg out fmt st L lg)
           = filter (\<lambda>h. \<not> gunicorn h) (L lg)"
proof (cases "find gunicorn (L lg)")
  case None
  with assms(1) show ?thesis
    by (auto simp: set_handler_def get_gunicorn_handler_def Let_def dest: find_None_flagged)
next
  case (Some h)
  from find_remove1_flagged [OF Some] assms show ?thesis
    by (auto simp: set_handler_def get_gunicorn_handler_def Let_def Some)
qed

text \<open>
  Claim C6, as stated: after any number of calls the channel has exactly one handler
  with the flag. It fails for a channel that has two handlers with the flag before
  the call: one is removed, one is added, and two are left.
\<close>

theorem two_flagged_handlers_remain:
  "length (filter gunicorn
     (set_handler base_set_handler access_log [] [] None
        ((\<lambda>_. [])(access_log := [syslog_handler, access_rich_handler])) access_log)) = 2"
  by (simp add: set_handler_def get_gunicorn_handler_def syslog_handler_def
      access_rich_handler_def)

text \<open>
  Claim C6, amended. For the error or the access channel with at most one handler
  with the flag, any number of calls, at least one, leaves exactly one handler with
  the flag, and the handlers without the flag are the same as before, in their order.
\<close>

theorem set_handler_one_flagged:
  assumes "lg = error_log \<or> lg = access_log"
    and "length (filter gunicorn (L lg)) \<le> 1"
    and "0 < n"
  shows "length (filter gunicorn (((set_handler base lg out fmt st) ^^ n) L lg)) = 1
       \<and> filter (\<lambda>h. \<not> gunicorn h) (((set_handler base lg out fmt st) ^^ n) L lg)
           = filter (\<lambda>h. \<not> gunicorn h) (L lg)"
  using assms(3)
proof (induction n)
  case 0
  then show ?case by simp
next
  case (Suc n)
  show ?case
  proof (cases "n = 0")
    case True
    with set_handler_step [of lg L base out fmt st] assms(1,2) show ?thesis by simp
  next
    case False
    with Suc.IH have IH:
      "length (filter gunicorn (((set_handler base lg out fmt st) ^^ n) L lg)) = 1"
      "filter (\<lambda>h. \<not> gunicorn h) (((set_handler base lg out fmt st) ^^ n) L lg)
         = filter (\<lambda>h. \<not> gunicorn h) (L lg)"
      by auto
    from IH(1) have "length (filter gunicorn (((set_handler base lg out fmt st) ^^ n) L lg)) \<le> 1"
      by simp
    with set_handler_step [of lg "((set_handler base lg out fmt st) ^^ n) L" base out fmt st]
      assms(1) IH(2)
    show ?thesis by simp
  qed
qed

theorem set_handler_one_flagged_witness:
  "(error_log = error_log \<or> error_log = access_log)
   \<and> length (filter gunicorn (((\<lambda>_. [])(error_log := [file_handler, syslog_handler])) error_log)) \<le> 1
   \<and> (0::nat) < 2
   \<and> length (filter gunicorn
        (((set_handler base_set_handler error_log [] [] None) ^^ 2)
           ((\<lambda>_. [])(error_log := [file_handler, syslog_handler])) error_log)) = 1
   \<and> filter (\<lambda>h. \<not> gunicorn h)
        (((set_handler base_set_handler error_log [] [] None) ^^ 2)
           ((\<lambda>_. [])(error_log := [file_handler, syslog_handler])) error_log) = [file_handler]"
  using set_handler_one_flagged
          [of error_log "(\<lambda>_. [])(error_log := [file_handler, syslog_handler])" 2
              base_set_handler "[]" "[]" None]
  by (simp add: file_handler_def syslog_handler_def)

end
